theory Spec2Isabelle
  imports Main "HOL-Library.AList"
begin

section \<open>JavaScript values as the plugins see them\<close>

text \<open>
  The gist persistence plugin (\<^verbatim>\<open>src/unnamed/part_001\<close>) handles values of the host
  language: the payload's fields, the request objects it hands to the dispatcher, the
  \<^verbatim>\<open>err\<close> and \<^verbatim>\<open>xhr\<close> arguments of a completion function and whatever
  \<^verbatim>\<open>JSON.parse\<close> returns. They are modelled by one datatype. Objects are association
  lists from property names to values; \<open>ErrorObj n m\<close> is an error object with name \<open>n\<close>
  and message \<open>m\<close>, so \<^verbatim>\<open>new Error('x')\<close> is \<open>ErrorObj ''Error'' ''x''\<close>.
  Numbers are the integral ones (a gist's user id, an HTTP status); the plugin never
  computes with a number, it only tests, compares and prints them.
\<close>

datatype jsval =
    Undefined
  | Null
  | Bool bool
  | Num int
  | Str string
  | Arr "jsval list"
  | Obj "(string \<times> jsval) list"
  | ErrorObj string string

text \<open>What \<^verbatim>\<open>if (v)\<close> and \<^verbatim>\<open>!v\<close> test: every value is truthy but
  \<^verbatim>\<open>undefined\<close>, \<^verbatim>\<open>null\<close>, \<^verbatim>\<open>false\<close>, \<^verbatim>\<open>0\<close> and the empty string.\<close>

fun truthy :: "jsval \<Rightarrow> bool" where
  "truthy Undefined = False"
| "truthy Null = False"
| "truthy (Bool b) = b"
| "truthy (Num n) = (n \<noteq> 0)"
| "truthy (Str s) = (s \<noteq> [])"
| "truthy (Arr xs) = True"
| "truthy (Obj kvs) = True"
| "truthy (ErrorObj n m) = True"

text \<open>Decimal digits of a natural number, most significant first.\<close>

fun digits10 :: "nat \<Rightarrow> string" where
  "digits10 n =
     (if n < 10 then [char_of (48 + n)]
      else digits10 (n div 10) @ [char_of (48 + n mod 10)])"

declare digits10.simps [simp del]

text \<open>
  The string conversion that \<^verbatim>\<open>'...' + v\<close> and \<^verbatim>\<open>JSON.parse(v)\<close> apply to their
  operand. An array prints its elements separated by commas, \<^verbatim>\<open>null\<close> and
  \<^verbatim>\<open>undefined\<close> elements as nothing; a plain object prints as
  \<^verbatim>\<open>[object Object]\<close>; an error object as its name, a colon and its message.
\<close>

fun ToString :: "jsval \<Rightarrow> string"
  and join_elems :: "jsval list \<Rightarrow> string"
  and elem_string :: "jsval \<Rightarrow> string"
where
  "ToString Undefined = ''undefined''"
| "ToString Null = ''null''"
| "ToString (Bool b) = (if b then ''true'' else ''false'')"
| "ToString (Num n) = (if n < 0 then CHR ''-'' # digits10 (nat (- n)) else digits10 (nat n))"
| "ToString (Str s) = s"
| "ToString (Arr xs) = join_elems xs"
| "ToString (Obj kvs) = ''[object Object]''"
| "ToString (ErrorObj n m) =
     (if n = [] then m else if m = [] then n else n @ '': '' @ m)"
| "join_elems [] = []"
| "join_elems [x] = elem_string x"
| "join_elems (x # y # ys) = elem_string x @ '','' @ join_elems (y # ys)"
| "elem_string Undefined = []"
| "elem_string Null = []"
| "elem_string (Bool b) = ToString (Bool b)"
| "elem_string (Num n) = ToString (Num n)"
| "elem_string (Str s) = ToString (Str s)"
| "elem_string (Arr xs) = ToString (Arr xs)"
| "elem_string (Obj kvs) = ToString (Obj kvs)"
| "elem_string (ErrorObj n m) = ToString (ErrorObj n m)"

section \<open>The host: what the plugin calls but does not define\<close>

text \<open>
  The plugin runs against the browser and the application object. Neither is part of the
  plugin, so each operation of theirs is a field of the host and every statement below
  holds for any host:
  \<^item> \<open>JSON_parse\<close> is \<^verbatim>\<open>JSON.parse\<close> on the text of its argument: \<open>Inr v\<close> when
    the text parses to \<open>v\<close>, \<open>Inl e\<close> when it throws \<open>e\<close>;
  \<^item> \<open>JSON_stringify\<close> is \<^verbatim>\<open>JSON.stringify\<close> on an object;
  \<^item> \<open>TypeError_of v k\<close> is the exception the engine throws when property \<open>k\<close> of
    \<open>v\<close> is read and \<open>v\<close> is \<^verbatim>\<open>undefined\<close> or \<^verbatim>\<open>null\<close>;
  \<^item> \<open>onLine\<close> is \<^verbatim>\<open>navigator.onLine\<close>;
  \<^item> \<open>CLIENT_ID\<close> is \<^verbatim>\<open>process.env.GITHUB_CLIENT_ID\<close>;
  \<^item> \<open>middleware_trigger c p\<close> is \<^verbatim>\<open>App.middleware.trigger(c, p, completion)\<close> seen
    from the caller: \<open>Some (err, res)\<close> when the completion function is called with
    \<open>err\<close> and \<open>res\<close> (an argument left out is \<open>Undefined\<close>), \<open>None\<close> when it is
    never called.
\<close>

record host =
  JSON_parse :: "string \<Rightarrow> jsval + jsval"
  JSON_stringify :: "jsval \<Rightarrow> string"
  TypeError_of :: "jsval \<Rightarrow> string \<Rightarrow> jsval"
  onLine :: jsval
  CLIENT_ID :: jsval
  middleware_trigger :: "string \<Rightarrow> jsval \<Rightarrow> (jsval \<times> jsval) option"

text \<open>
  Reading property \<open>k\<close> of \<open>v\<close>, written \<^verbatim>\<open>v.k\<close> or \<^verbatim>\<open>v['k']\<close>. On
  \<^verbatim>\<open>undefined\<close> and \<^verbatim>\<open>null\<close> the read throws. On any other value it gives
  \<open>field v k\<close>: the member of that name in an object, \<^verbatim>\<open>undefined\<close> for a name the
  object lacks. The plugin reads the names \<^verbatim>\<open>id\<close>, \<^verbatim>\<open>user\<close>, \<^verbatim>\<open>login\<close>,
  \<^verbatim>\<open>files\<close>, \<^verbatim>\<open>notebook.md\<close>, \<^verbatim>\<open>content\<close>, \<^verbatim>\<open>xhr\<close>, \<^verbatim>\<open>status\<close> and
  \<^verbatim>\<open>responseText\<close>: none of them is a built-in property of a string, a number, a
  boolean or an array, so there the read gives \<^verbatim>\<open>undefined\<close>.
\<close>

fun field :: "jsval \<Rightarrow> string \<Rightarrow> jsval" where
  "field (Obj kvs) k = (case map_of kvs k of None \<Rightarrow> Undefined | Some v \<Rightarrow> v)"
| "field (ErrorObj n m) k =
     (if k = ''name'' then Str n else if k = ''message'' then Str m else Undefined)"
| "field v k = Undefined"

fun get_prop :: "host \<Rightarrow> jsval \<Rightarrow> string \<Rightarrow> jsval + jsval" where
  "get_prop h Undefined k = Inl (TypeError_of h Undefined k)"
| "get_prop h Null k = Inl (TypeError_of h Null k)"
| "get_prop h v k = Inr (field v k)"

section \<open>The payload and what a handler does with it\<close>

text \<open>
  The payload of the persistence channels is the notebook's persistence object. The
  handlers read and assign \<^verbatim>\<open>data.id\<close>, \<^verbatim>\<open>data.ownerId\<close> and
  \<^verbatim>\<open>data.contents\<close> and call \<^verbatim>\<open>data.isAuthenticated()\<close>, whose returned value
  is the field \<open>isAuthenticated\<close>.
\<close>

record data =
  id' :: jsval
  ownerId :: jsval
  contents :: jsval
  isAuthenticated :: jsval

text \<open>
  A handler is called as \<^verbatim>\<open>handler(data, next, done)\<close>. Along every path of the
  source it ends in one of four ways: it calls \<^verbatim>\<open>next\<close> (the dispatcher's continue
  operation) with some arguments, it calls \<^verbatim>\<open>done\<close> (the terminate operation) with
  some arguments, an exception escapes it, or it waits for a completion that never
  comes.
\<close>

datatype signal =
    Next "jsval list"
  | Done "jsval list"
  | Uncaught jsval
  | Pending

text \<open>
  The outcome of a handler: the payload as the handler leaves it, the channels it
  triggered with the payload of each (the only way the plugin reaches the network), and
  how it ended.
\<close>

record outcome =
  final :: data
  triggered :: "(string \<times> jsval) list"
  signal :: signal

section \<open>Loading a gist\<close>

text \<open>
  \<^verbatim>\<open>loadPlugin\<close>, lines 93 to 119 of \<^verbatim>\<open>src/unnamed/part_001\<close>. Every property read
  is a step that may throw. The \<^verbatim>\<open>try\<close> block holds both the read of
  \<^verbatim>\<open>xhr.responseText\<close> and the call of \<^verbatim>\<open>JSON.parse\<close>, so an exception of either
  goes to \<^verbatim>\<open>next\<close>; one thrown after the block would escape the callback. The
  \<^verbatim>\<open>err\<close> argument of the completion is never read.
\<close>

definition AUTH_URL :: string where
  "AUTH_URL = ''https://github.com/login/oauth/authorize''"

definition TOKEN_URL :: string where
  "TOKEN_URL = ''https://github.com/login/oauth/access_token''"

definition VALID_URL :: string where
  "VALID_URL = ''https://api.github.com/user''"

definition and_also :: "jsval \<Rightarrow> (jsval + jsval) \<Rightarrow> jsval + jsval" where
  \<comment> \<open>\<^verbatim>\<open>a && b\<close>: \<open>a\<close> itself when it is falsy, \<open>b\<close> (which may throw) otherwise.\<close>
  "and_also a b = (if truthy a then b else Inr a)"

definition load_request :: "data \<Rightarrow> jsval" where
  "load_request d =
     Obj [(''url'', Str (''https://api.github.com/gists/'' @ ToString (id' d))),
          (''method'', Str ''GET'')]"

definition load_malformed :: "host \<Rightarrow> jsval \<Rightarrow> jsval + bool" where
  \<comment> \<open>\<^verbatim>\<open>!content || !content.files || !content.files['notebook.md']\<close>\<close>
  "load_malformed h content =
     (if \<not> truthy content then Inr True
      else
        (case get_prop h content ''files'' of
           Inl e \<Rightarrow> Inl e
         | Inr files \<Rightarrow>
             if \<not> truthy files then Inr True
             else
               (case get_prop h files ''notebook.md'' of
                  Inl e \<Rightarrow> Inl e
                | Inr notebook \<Rightarrow> Inr (\<not> truthy notebook))))"

definition load_assign :: "host \<Rightarrow> data \<Rightarrow> jsval \<Rightarrow> data \<times> signal" where
  \<comment> \<open>The three assignments of lines 114 to 116 and \<^verbatim>\<open>return done()\<close>.\<close>
  "load_assign h d content =
     (case get_prop h content ''id'' of
        Inl e \<Rightarrow> (d, Uncaught e)
      | Inr i \<Rightarrow>
          (let d1 = d\<lparr>id' := i\<rparr> in
           case get_prop h content ''user'' of
             Inl e \<Rightarrow> (d1, Uncaught e)
           | Inr user \<Rightarrow>
               (case and_also user (get_prop h user ''id'') of
                  Inl e \<Rightarrow> (d1, Uncaught e)
                | Inr owner \<Rightarrow>
                    (let d2 = d1\<lparr>ownerId := owner\<rparr> in
                     case get_prop h content ''files'' of
                       Inl e \<Rightarrow> (d2, Uncaught e)
                     | Inr files \<Rightarrow>
                         (case get_prop h files ''notebook.md'' of
                            Inl e \<Rightarrow> (d2, Uncaught e)
                          | Inr notebook \<Rightarrow>
                              (case get_prop h notebook ''content'' of
                                 Inl e \<Rightarrow> (d2, Uncaught e)
                               | Inr c \<Rightarrow> (d2\<lparr>contents := c\<rparr>, Done [])))))))"

definition load_completion :: "host \<Rightarrow> data \<Rightarrow> jsval \<Rightarrow> jsval \<Rightarrow> data \<times> signal" where
  \<comment> \<open>The callback \<^verbatim>\<open>function (err, xhr)\<close> of lines 101 to 118.\<close>
  "load_completion h d err xhr =
     (case get_prop h xhr ''responseText'' of
        Inl e \<Rightarrow> (d, Next [e])
      | Inr text \<Rightarrow>
          (case JSON_parse h (ToString text) of
             Inl e \<Rightarrow> (d, Next [e])
           | Inr content \<Rightarrow>
               (case load_malformed h content of
                  Inl e \<Rightarrow> (d, Uncaught e)
                | Inr True \<Rightarrow> (d, Next [ErrorObj ''Error'' ''Unexpected JSON response''])
                | Inr False \<Rightarrow> load_assign h d content)))"

definition loadPlugin :: "host \<Rightarrow> data \<Rightarrow> outcome" where
  "loadPlugin h d =
     (if \<not> truthy (id' d) then \<lparr>final = d, triggered = [], signal = Next []\<rparr>
      else
        (case middleware_trigger h ''ajax'' (load_request d) of
           None \<Rightarrow> \<lparr>final = d, triggered = [(''ajax'', load_request d)], signal = Pending\<rparr>
         | Some (err, xhr) \<Rightarrow>
             (case load_completion h d err xhr of
                (d', s) \<Rightarrow>
                  \<lparr>final = d', triggered = [(''ajax'', load_request d)], signal = s\<rparr>)))"

section \<open>Saving a gist\<close>

text \<open>
  \<^verbatim>\<open>savePlugin\<close>, lines 128 to 170. Both guards and every path of the callback end in
  \<^verbatim>\<open>next\<close>; the handler holds no call of \<^verbatim>\<open>done\<close>. The status test stands
  before the \<^verbatim>\<open>try\<close> block, so reading \<^verbatim>\<open>xhr.status\<close> of a missing
  \<^verbatim>\<open>xhr\<close> escapes the callback. Inside the block \<^verbatim>\<open>data.id\<close> is assigned before
  \<^verbatim>\<open>data.ownerId\<close> is computed.
\<close>

definition save_request :: "host \<Rightarrow> data \<Rightarrow> jsval" where
  "save_request h d =
     Obj [(''url'', Str (''https://api.github.com/gists'' @
                          (if truthy (id' d) then ''/'' @ ToString (id' d) else []))),
          (''method'', Str (if truthy (id' d) then ''PATCH'' else ''POST'')),
          (''data'', Str (JSON_stringify h
             (Obj [(''files'', Obj [(''notebook.md'', Obj [(''content'', contents d)])])]))),
          (''oauth2'', Obj [(''authorizationUrl'', Str AUTH_URL)])]"

definition save_update :: "host \<Rightarrow> data \<Rightarrow> jsval \<Rightarrow> data \<times> signal" where
  \<comment> \<open>The \<^verbatim>\<open>try\<close> block of lines 160 to 166 and \<^verbatim>\<open>return next()\<close>.\<close>
  "save_update h d xhr =
     (case get_prop h xhr ''responseText'' of
        Inl e \<Rightarrow> (d, Next [e])
      | Inr text \<Rightarrow>
          (case JSON_parse h (ToString text) of
             Inl e \<Rightarrow> (d, Next [e])
           | Inr content \<Rightarrow>
               (case get_prop h content ''id'' of
                  Inl e \<Rightarrow> (d, Next [e])
                | Inr i \<Rightarrow>
                    (let d1 = d\<lparr>id' := i\<rparr> in
                     case get_prop h content ''user'' of
                       Inl e \<Rightarrow> (d1, Next [e])
                     | Inr user \<Rightarrow>
                         (case and_also user (get_prop h user ''id'') of
                            Inl e \<Rightarrow> (d1, Next [e])
                          | Inr owner \<Rightarrow> (d1\<lparr>ownerId := owner\<rparr>, Next []))))))"

definition save_completion :: "host \<Rightarrow> data \<Rightarrow> jsval \<Rightarrow> jsval \<Rightarrow> data \<times> signal" where
  \<comment> \<open>The callback \<^verbatim>\<open>function (err, xhr)\<close> of lines 150 to 169.\<close>
  "save_completion h d err xhr =
     (if truthy err then (d, Next [err])
      else
        (case get_prop h xhr ''status'' of
           Inl e \<Rightarrow> (d, Uncaught e)
         | Inr status \<Rightarrow>
             if status \<noteq> Num 200 \<and> status \<noteq> Num 201
             then (d, Next [ErrorObj ''Error'' ''Request failed''])
             else save_update h d xhr))"

definition savePlugin :: "host \<Rightarrow> data \<Rightarrow> outcome" where
  "savePlugin h d =
     (if \<not> truthy (isAuthenticated d) then \<lparr>final = d, triggered = [], signal = Next []\<rparr>
      else if onLine h = Bool False
      then \<lparr>final = d, triggered = [],
             signal = Next [ErrorObj ''Error'' ''No internet available'']\<rparr>
      else
        (case middleware_trigger h ''ajax:oauth2'' (save_request h d) of
           None \<Rightarrow>
             \<lparr>final = d, triggered = [(''ajax:oauth2'', save_request h d)], signal = Pending\<rparr>
         | Some (err, xhr) \<Rightarrow>
             (case save_completion h d err xhr of
                (d', s) \<Rightarrow>
                  \<lparr>final = d', triggered = [(''ajax:oauth2'', save_request h d)],
                    signal = s\<rparr>)))"

section \<open>Authenticating\<close>

text \<open>
  \<^verbatim>\<open>authenticatedUserId\<close>, lines 25 to 47: it triggers the validation channel and
  calls its argument \<^verbatim>\<open>done\<close>, which both callers pass their own \<^verbatim>\<open>done\<close> for.
  The reads of \<^verbatim>\<open>content.id\<close> and \<^verbatim>\<open>content.login\<close> stand after the
  \<^verbatim>\<open>try\<close> block.
\<close>

definition validate_request :: jsval where
  "validate_request =
     Obj [(''validateUrl'', Str VALID_URL), (''authorizationUrl'', Str AUTH_URL)]"

definition identity_of :: "host \<Rightarrow> jsval \<Rightarrow> signal" where
  \<comment> \<open>\<^verbatim>\<open>return done(null, { userId: ..., userTitle: ... })\<close>, lines 42 to 45.\<close>
  "identity_of h content =
     (case get_prop h content ''id'' of
        Inl e \<Rightarrow> Uncaught e
      | Inr i \<Rightarrow>
          (case get_prop h content ''login'' of
             Inl e \<Rightarrow> Uncaught e
           | Inr login \<Rightarrow>
               Done [Null, Obj [(''userId'', i),
                                (''userTitle'', Str (ToString login @ '' @ Github''))]]))"

definition validate_completion :: "host \<Rightarrow> jsval \<Rightarrow> jsval \<Rightarrow> signal" where
  \<comment> \<open>The callback \<^verbatim>\<open>function (err, auth)\<close> of lines 29 to 46.\<close>
  "validate_completion h err auth =
     (if truthy err \<or> \<not> truthy auth then Done [err]
      else
        (case get_prop h auth ''xhr'' of
           Inl e \<Rightarrow> Done [e]
         | Inr xhr \<Rightarrow>
             (case get_prop h xhr ''responseText'' of
                Inl e \<Rightarrow> Done [e]
              | Inr text \<Rightarrow>
                  (case JSON_parse h (ToString text) of
                     Inl e \<Rightarrow> Done [e]
                   | Inr content \<Rightarrow> identity_of h content))))"

definition authenticatedUserId :: "host \<Rightarrow> (string \<times> jsval) list \<times> signal" where
  "authenticatedUserId h =
     (case middleware_trigger h ''authenticate:oauth2:validate'' validate_request of
        None \<Rightarrow> ([(''authenticate:oauth2:validate'', validate_request)], Pending)
      | Some (err, auth) \<Rightarrow>
          ([(''authenticate:oauth2:validate'', validate_request)],
           validate_completion h err auth))"

text \<open>\<^verbatim>\<open>authenticatePlugin\<close>, lines 58 to 73, and \<^verbatim>\<open>authenticatedPlugin\<close>, lines 82 to 84.\<close>

definition oauth2_request :: "host \<Rightarrow> jsval" where
  "oauth2_request h =
     Obj [(''scopes'', Arr [Str ''gist'']),
          (''clientId'', CLIENT_ID h),
          (''clientSecret'', Str []),
          (''validateUrl'', Str VALID_URL),
          (''accessTokenUrl'', Str TOKEN_URL),
          (''authorizationUrl'', Str AUTH_URL)]"

definition authenticatePlugin :: "host \<Rightarrow> data \<Rightarrow> outcome" where
  "authenticatePlugin h d =
     (case middleware_trigger h ''authenticate:oauth2'' (oauth2_request h) of
        None \<Rightarrow>
          \<lparr>final = d, triggered = [(''authenticate:oauth2'', oauth2_request h)],
            signal = Pending\<rparr>
      | Some (err, auth) \<Rightarrow>
          if truthy err
          then \<lparr>final = d, triggered = [(''authenticate:oauth2'', oauth2_request h)],
                 signal = Next [err]\<rparr>
          else
            (case authenticatedUserId h of
               (t, s) \<Rightarrow>
                 \<lparr>final = d, triggered = (''authenticate:oauth2'', oauth2_request h) # t,
                   signal = s\<rparr>))"

definition authenticatedPlugin :: "host \<Rightarrow> data \<Rightarrow> outcome" where
  "authenticatedPlugin h d =
     (case authenticatedUserId h of (t, s) \<Rightarrow> \<lparr>final = d, triggered = t, signal = s\<rparr>)"

section \<open>A host to run the handlers on\<close>

text \<open>
  To run a handler on a response text, a host with a working \<open>JSON_parse\<close> is needed.
  \<open>read_json\<close> reads the JSON texts whose numbers have neither a fraction nor an
  exponent and whose strings have no \<^verbatim>\<open>\u\<close> escape, which covers the responses
  used below. It rejects every other text, also those the browser's parser accepts, so
  it stands in for \<^verbatim>\<open>JSON.parse\<close> on the texts of that fragment only; the theorems
  about the handlers hold for any \<open>JSON_parse\<close>. A later member of an object replaces an
  earlier one of the same name. The first argument of \<open>read_value\<close> bounds the depth of
  the recursion.
\<close>

definition is_ws :: "char \<Rightarrow> bool" where
  "is_ws c = (c = CHR '' '' \<or> c = CHR 0x09 \<or> c = CHR 0x0A \<or> c = CHR 0x0D)"

definition skip_ws :: "string \<Rightarrow> string" where
  "skip_ws s = dropWhile is_ws s"

definition is_digit :: "char \<Rightarrow> bool" where
  "is_digit c = (48 \<le> (of_char c :: nat) \<and> (of_char c :: nat) \<le> 57)"

definition digit_val :: "char \<Rightarrow> int" where
  "digit_val c = int (of_char c) - 48"

definition unescape :: "char \<Rightarrow> char option" where
  "unescape c =
     (if c = CHR 0x22 then Some (CHR 0x22)
      else if c = CHR 0x5C then Some (CHR 0x5C)
      else if c = CHR ''/'' then Some (CHR ''/'')
      else if c = CHR ''b'' then Some (CHR 0x08)
      else if c = CHR ''f'' then Some (CHR 0x0C)
      else if c = CHR ''n'' then Some (CHR 0x0A)
      else if c = CHR ''r'' then Some (CHR 0x0D)
      else if c = CHR ''t'' then Some (CHR 0x09)
      else None)"

fun read_chars :: "string \<Rightarrow> (string \<times> string) option" where
  "read_chars [] = None"
| "read_chars (c # cs) =
     (if c = CHR 0x22 then Some ([], cs)
      else if c = CHR 0x5C then
        (case cs of
           [] \<Rightarrow> None
         | e # cs' \<Rightarrow>
             (case unescape e of
                None \<Rightarrow> None
              | Some x \<Rightarrow>
                  (case read_chars cs' of None \<Rightarrow> None | Some (s, r) \<Rightarrow> Some (x # s, r))))
      else if (of_char c :: nat) < 32 then None
      else (case read_chars cs of None \<Rightarrow> None | Some (s, r) \<Rightarrow> Some (c # s, r)))"

definition read_digits :: "string \<Rightarrow> (int \<times> string) option" where
  "read_digits s =
     (let ds = takeWhile is_digit s; r = dropWhile is_digit s
      in if ds = [] then None
         else if hd ds = CHR ''0'' \<and> tl ds \<noteq> [] then None
         else if r \<noteq> [] \<and> hd r \<in> {CHR ''.'', CHR ''e'', CHR ''E''} then None
         else Some (foldl (\<lambda>a c. 10 * a + digit_val c) 0 ds, r))"

definition read_number :: "string \<Rightarrow> (jsval \<times> string) option" where
  "read_number s =
     (case s of
        [] \<Rightarrow> None
      | c # cs \<Rightarrow>
          if c = CHR ''-''
          then (case read_digits cs of None \<Rightarrow> None | Some (n, r) \<Rightarrow> Some (Num (- n), r))
          else (case read_digits s of None \<Rightarrow> None | Some (n, r) \<Rightarrow> Some (Num n, r)))"

definition read_literal :: "string \<Rightarrow> (jsval \<times> string) option" where
  "read_literal s =
     (if take 4 s = ''true'' then Some (Bool True, drop 4 s)
      else if take 5 s = ''false'' then Some (Bool False, drop 5 s)
      else if take 4 s = ''null'' then Some (Null, drop 4 s)
      else read_number s)"

fun read_value :: "nat \<Rightarrow> string \<Rightarrow> (jsval \<times> string) option"
  and read_elements :: "nat \<Rightarrow> string \<Rightarrow> (jsval list \<times> string) option"
  and read_members :: "nat \<Rightarrow> string \<Rightarrow> ((string \<times> jsval) list \<times> string) option"
where
  "read_value 0 s = None"
| "read_value (Suc n) s =
     (case skip_ws s of
        [] \<Rightarrow> None
      | c # cs \<Rightarrow>
          if c = CHR ''{'' then
            (if take 1 (skip_ws cs) = ''}'' then Some (Obj [], drop 1 (skip_ws cs))
             else (case read_members n cs of
                     None \<Rightarrow> None
                   | Some (kvs, r) \<Rightarrow>
                       Some (Obj (foldl (\<lambda>acc (k, v). AList.update k v acc) [] kvs), r)))
          else if c = CHR ''['' then
            (if take 1 (skip_ws cs) = '']'' then Some (Arr [], drop 1 (skip_ws cs))
             else (case read_elements n cs of
                     None \<Rightarrow> None
                   | Some (vs, r) \<Rightarrow> Some (Arr vs, r)))
          else if c = CHR 0x22 then
            (case read_chars cs of None \<Rightarrow> None | Some (t, r) \<Rightarrow> Some (Str t, r))
          else read_literal (c # cs))"
| "read_elements 0 s = None"
| "read_elements (Suc n) s =
     (case read_value n s of
        None \<Rightarrow> None
      | Some (v, r) \<Rightarrow>
          (case skip_ws r of
             [] \<Rightarrow> None
           | c # r' \<Rightarrow>
               if c = CHR '','' then
                 (case read_elements n r' of
                    None \<Rightarrow> None
                  | Some (vs, r'') \<Rightarrow> Some (v # vs, r''))
               else if c = CHR '']'' then Some ([v], r')
               else None))"
| "read_members 0 s = None"
| "read_members (Suc n) s =
     (case skip_ws s of
        [] \<Rightarrow> None
      | q # cs \<Rightarrow>
          if q \<noteq> CHR 0x22 then None
          else
            (case read_chars cs of
               None \<Rightarrow> None
             | Some (k, r) \<Rightarrow>
                 (case skip_ws r of
                    [] \<Rightarrow> None
                  | c # r1 \<Rightarrow>
                      if c \<noteq> CHR '':'' then None
                      else
                        (case read_value n r1 of
                           None \<Rightarrow> None
                         | Some (v, r2) \<Rightarrow>
                             (case skip_ws r2 of
                                [] \<Rightarrow> None
                              | c' # r3 \<Rightarrow>
                                  if c' = CHR '','' then
                                    (case read_members n r3 of
                                       None \<Rightarrow> None
                                     | Some (kvs, r4) \<Rightarrow> Some ((k, v) # kvs, r4))
                                  else if c' = CHR ''}'' then Some ([(k, v)], r3)
                                  else None)))))"

definition SyntaxError :: jsval where
  "SyntaxError = ErrorObj ''SyntaxError'' ''Unexpected token''"

definition read_json :: "string \<Rightarrow> jsval + jsval" where
  "read_json s =
     (case read_value (Suc (length s)) s of
        None \<Rightarrow> Inl SyntaxError
      | Some (v, r) \<Rightarrow> if skip_ws r = [] then Inr v else Inl SyntaxError)"

text \<open>
  \<open>write_json\<close> writes an object as \<^verbatim>\<open>JSON.stringify\<close> does for the values of the
  model: a member whose value is \<^verbatim>\<open>undefined\<close> is left out, an
  \<^verbatim>\<open>undefined\<close> element of an array is written \<^verbatim>\<open>null\<close>, an error object has
  no member to write.
\<close>

definition escape_char :: "char \<Rightarrow> string" where
  "escape_char c =
     (if c = CHR 0x22 then [CHR 0x5C, CHR 0x22]
      else if c = CHR 0x5C then [CHR 0x5C, CHR 0x5C]
      else if c = CHR 0x0A then [CHR 0x5C, CHR ''n'']
      else if c = CHR 0x0D then [CHR 0x5C, CHR ''r'']
      else if c = CHR 0x09 then [CHR 0x5C, CHR ''t'']
      else [c])"

definition quoted :: "string \<Rightarrow> string" where
  "quoted s = CHR 0x22 # concat (map escape_char s) @ [CHR 0x22]"

fun write_json :: "jsval \<Rightarrow> string"
  and write_elems :: "jsval list \<Rightarrow> string"
  and write_members :: "bool \<Rightarrow> (string \<times> jsval) list \<Rightarrow> string"
where
  "write_json Undefined = ''null''"
| "write_json Null = ''null''"
| "write_json (Bool b) = ToString (Bool b)"
| "write_json (Num n) = ToString (Num n)"
| "write_json (Str s) = quoted s"
| "write_json (Arr xs) = ''['' @ write_elems xs @ '']''"
| "write_json (Obj kvs) = ''{'' @ write_members True kvs @ ''}''"
| "write_json (ErrorObj n m) = ''{}''"
| "write_elems [] = []"
| "write_elems [x] = write_json x"
| "write_elems (x # y # ys) = write_json x @ '','' @ write_elems (y # ys)"
| "write_members first [] = []"
| "write_members first ((k, v) # kvs) =
     (if v = Undefined then write_members first kvs
      else (if first then [] else '','') @ quoted k @ '':'' @ write_json v
           @ write_members False kvs)"

text \<open>
  A browser: \<open>online\<close> is \<^verbatim>\<open>navigator.onLine\<close> and \<open>net\<close> answers the
  triggers.
\<close>

definition browser ::
  "jsval \<Rightarrow> (string \<Rightarrow> jsval \<Rightarrow> (jsval \<times> jsval) option) \<Rightarrow> host" where
  "browser online net =
     \<lparr>JSON_parse = read_json,
      JSON_stringify = write_json,
      TypeError_of = (\<lambda>v k. ErrorObj ''TypeError''
                        (''Cannot read property '' @ k @ '' of '' @ ToString v)),
      onLine = online,
      CLIENT_ID = Str ''0123456789abcdef'',
      middleware_trigger = net\<rparr>"

definition network ::
  "(string \<times> jsval \<times> jsval) list \<Rightarrow> string \<Rightarrow> jsval \<Rightarrow> (jsval \<times> jsval) option" where
  \<comment> \<open>The completion arguments of each channel that completes, whatever the request.\<close>
  "network answers channel request = map_of answers channel"

definition response :: "int \<Rightarrow> string \<Rightarrow> jsval" where
  \<comment> \<open>An \<^verbatim>\<open>xhr\<close> object with its status and its response text.\<close>
  "response status body = Obj [(''status'', Num status), (''responseText'', Str body)]"

definition gist_body :: string where
  \<open>gist_body = ''{"id":"g1","user":{"id":7},"files":{"notebook.md":{"content":"hi"}}}''\<close>

definition gist_content :: jsval where
  "gist_content =
     Obj [(''id'', Str ''g1''),
          (''user'', Obj [(''id'', Num 7)]),
          (''files'', Obj [(''notebook.md'', Obj [(''content'', Str ''hi'')])])]"

definition user_body :: string where
  \<open>user_body = ''{"login":"octocat","id":583231}''\<close>

definition notebook :: "jsval \<Rightarrow> jsval \<Rightarrow> data" where
  \<comment> \<open>A payload with the given id and the given answer of \<^verbatim>\<open>isAuthenticated()\<close>.\<close>
  "notebook i a = \<lparr>id' = i, ownerId = Undefined, contents = Str ''# Title'', isAuthenticated = a\<rparr>"

section \<open>The dispatcher\<close>

text \<open>
  Modelled from the spec: \<^verbatim>\<open>App.middleware\<close> (\<^verbatim>\<open>register\<close> and \<^verbatim>\<open>trigger\<close>), whose
  source is not among the files of the repository at hand; the plugin only calls it.
  The definitions follow section 4.2 of the specification.

  A handler is invoked with the payload, a continue operation and a terminate
  operation. What it does is the payload as it leaves it and the calls it makes to the
  two operations, in order: a handler that stalls makes none. The registry maps a
  channel to its handlers in registration order. A trigger takes the channel's list as
  it is, completes at once with \<open>(null, payload)\<close> when the list is empty, and otherwise
  invokes the first handler with cursor \<open>0\<close> and no last error. A call of continue
  records its error as the last error and advances the cursor; past the end of the list
  it invokes the completion with the last error and the payload, otherwise it invokes
  the handler at the cursor. A call of terminate invokes the completion with its two
  arguments and invokes no handler. \<open>completions\<close> lists the invocations of the
  completion function, in order.

  The last error is the error of the latest call of continue, so a later call with no
  error clears an earlier one: the reading that section 8 of the specification asks
  for ("the final error reported is null"). The specification says what each call does
  and obliges a handler to make exactly one; what the dispatcher does with a second
  call it leaves open, and the model applies the description of the call again.
\<close>

datatype ('e, 'v) call =
    Continue "'e option"
  | Terminate "'e option" "'v option"

type_synonym ('e, 'v) handler = "'v \<Rightarrow> 'v \<times> ('e, 'v) call list"

record ('e, 'v) walk_state =
  cursor :: nat
  lastError :: "'e option"
  payload :: 'v
  completions :: "('e option \<times> 'v option) list"

definition register ::
  "(string \<Rightarrow> ('e, 'v) handler list) \<Rightarrow> string \<Rightarrow> ('e, 'v) handler
    \<Rightarrow> (string \<Rightarrow> ('e, 'v) handler list)" where
  "register registry channel h = registry(channel := registry channel @ [h])"

function walk ::
  "('e, 'v) handler list \<Rightarrow> ('e, 'v) walk_state \<Rightarrow> ('e, 'v) call list
    \<Rightarrow> ('e, 'v) walk_state" where
  "walk hs s [] = s"
| "walk hs s (Terminate e r # cs) =
     walk hs (s\<lparr>completions := completions s @ [(e, r)]\<rparr>) cs"
| "walk hs s (Continue e # cs) =
     (let s1 = s\<lparr>lastError := e, cursor := Suc (cursor s)\<rparr> in
      if length hs \<le> cursor s1
      then walk hs (s1\<lparr>completions := completions s1 @ [(lastError s1, Some (payload s1))]\<rparr>) cs
      else
        (case (hs ! cursor s1) (payload s1) of
           (p, cs') \<Rightarrow> walk hs (s1\<lparr>payload := p\<rparr>) (cs' @ cs)))"
  by pat_completeness auto
termination
  by (relation "measures [\<lambda>(hs, s, cs). length hs - cursor s, \<lambda>(hs, s, cs). length cs]") auto

definition trigger ::
  "(string \<Rightarrow> ('e, 'v) handler list) \<Rightarrow> string \<Rightarrow> 'v \<Rightarrow> ('e option \<times> 'v option) list" where
  "trigger registry channel p =
     (case registry channel of
        [] \<Rightarrow> [(None, Some p)]
      | h # hs \<Rightarrow>
          (case h p of
             (p', cs) \<Rightarrow>
               completions
                 (walk (h # hs)
                    \<lparr>cursor = 0, lastError = None, payload = p', completions = []\<rparr> cs)))"

text \<open>Four handlers to run the dispatcher on: one declines, one fails and passes on,
  one settles the trigger with twice the payload, one stalls.\<close>

definition declining :: "(string, int) handler" where
  "declining p = (p, [Continue None])"

definition failing :: "(string, int) handler" where
  "failing p = (p, [Continue (Some ''not found'')])"

definition doubling :: "(string, int) handler" where
  "doubling p = (p, [Terminate None (Some (2 * p))])"

definition stalling :: "(string, int) handler" where
  "stalling p = (p, [])"

definition fallback_registry :: "string \<Rightarrow> (string, int) handler list" where
  "fallback_registry = register (register (\<lambda>channel. []) ''fallback'' failing) ''fallback'' doubling"

section \<open>Facts about values and the example host\<close>

text \<open>A read throws only on \<^verbatim>\<open>undefined\<close> and \<^verbatim>\<open>null\<close>, and both are falsy.\<close>

lemma get_prop_defined:
  "v \<noteq> Undefined \<Longrightarrow> v \<noteq> Null \<Longrightarrow> get_prop h v k = Inr (field v k)"
  by (cases v) simp_all

lemma truthy_defined: "truthy v \<Longrightarrow> v \<noteq> Undefined \<and> v \<noteq> Null"
  by (cases v) simp_all

lemma get_prop_truthy: "truthy v \<Longrightarrow> get_prop h v k = Inr (field v k)"
  by (simp add: get_prop_defined truthy_defined)

text \<open>What the example host's \<open>JSON_parse\<close> makes of the texts used below.\<close>

lemma read_gist_body: "read_json gist_body = Inr gist_content"
  by code_simp

lemma read_not_json: "read_json ''not json'' = Inl SyntaxError"
  by code_simp

lemma read_user_body:
  "read_json user_body = Inr (Obj [(''login'', Str ''octocat''), (''id'', Num 583231)])"
  by code_simp

lemma read_no_files: \<open>read_json ''{"id":"g1"}'' = Inr (Obj [(''id'', Str ''g1'')])\<close>
  by code_simp

lemma read_no_notebook:
  \<open>read_json ''{"id":"g1","files":{"readme.md":{"content":"x"}}}''
     = Inr (Obj [(''id'', Str ''g1''),
                 (''files'', Obj [(''readme.md'', Obj [(''content'', Str ''x'')])])])\<close>
  by code_simp

section \<open>The load handler\<close>

text \<open>
  The guard of line 110 never throws, and once it has passed the three assignments do
  not throw either: no exception escapes the load handler.
\<close>

lemma load_malformed_eq:
  "load_malformed h content =
     Inr (\<not> truthy content \<or> \<not> truthy (field content ''files'')
          \<or> \<not> truthy (field (field content ''files'') ''notebook.md''))"
  by (simp add: load_malformed_def get_prop_truthy)

lemma load_assign_eq:
  "truthy content \<Longrightarrow> truthy (field content ''files'') \<Longrightarrow>
   truthy (field (field content ''files'') ''notebook.md'') \<Longrightarrow>
   load_assign h d content =
     (d\<lparr>id' := field content ''id'',
        ownerId := (if truthy (field content ''user'') then field (field content ''user'') ''id''
                    else field content ''user''),
        contents := field (field (field content ''files'') ''notebook.md'') ''content''\<rparr>,
      Done [])"
  by (simp add: load_assign_def and_also_def get_prop_truthy)

lemma load_checked_eq:
  "(case load_malformed h content of
      Inl e \<Rightarrow> (d, Uncaught e)
    | Inr True \<Rightarrow> (d, Next [ErrorObj ''Error'' ''Unexpected JSON response''])
    | Inr False \<Rightarrow> load_assign h d content)
   = (if truthy content \<and> truthy (field content ''files'')
         \<and> truthy (field (field content ''files'') ''notebook.md'')
      then (d\<lparr>id' := field content ''id'',
              ownerId := (if truthy (field content ''user'')
                          then field (field content ''user'') ''id''
                          else field content ''user''),
              contents := field (field (field content ''files'') ''notebook.md'') ''content''\<rparr>,
            Done [])
      else (d, Next [ErrorObj ''Error'' ''Unexpected JSON response'']))"
proof (cases "truthy content \<and> truthy (field content ''files'')
         \<and> truthy (field (field content ''files'') ''notebook.md'')")
  case True
  then show ?thesis by (simp add: load_malformed_eq load_assign_eq)
next
  case False
  then have "load_malformed h content = Inr True" by (simp add: load_malformed_eq)
  then show ?thesis using False by simp
qed

lemma load_never_escapes: "signal (loadPlugin h d) \<noteq> Uncaught e"
  by (simp add: loadPlugin_def load_completion_def load_checked_eq
      split: option.splits sum.splits prod.splits)

text \<open>The callback reads neither its \<^verbatim>\<open>err\<close> argument nor the dispatcher.\<close>

lemma get_prop_net: "get_prop (h\<lparr>middleware_trigger := f\<rparr>) v k = get_prop h v k"
  by (cases v) simp_all

lemma load_completion_net:
  "load_completion (h\<lparr>middleware_trigger := f\<rparr>) d err xhr = load_completion h d err' xhr"
  by (simp add: load_completion_def load_checked_eq get_prop_net cong: sum.case_cong)

text \<open>
  C8. For every payload whose \<^verbatim>\<open>id\<close> is absent or falsy, the load handler calls
  continue with no argument, triggers no channel (so reaches no network) and leaves
  the payload as it was.
\<close>

theorem load_declines_without_id:
  "\<not> truthy (id' d) \<Longrightarrow> loadPlugin h d = \<lparr>final = d, triggered = [], signal = Next []\<rparr>"
  by (simp add: loadPlugin_def)

theorem load_declines_without_id_witness:
  "loadPlugin (browser (Bool True) (network [(''ajax'', Null, response 200 gist_body)]))
     (notebook Undefined (Bool True))
   = \<lparr>final = notebook Undefined (Bool True), triggered = [], signal = Next []\<rparr>"
proof -
  have h: "\<not> truthy (id' (notebook Undefined (Bool True)))" by (simp add: notebook_def)
  show ?thesis by (rule load_declines_without_id [OF h])
qed

text \<open>
  C6. With an identifier in the payload and a network read whose response text is
  \<open>gist_body\<close>, which parses to \<open>gist_content\<close>, the load handler sets the payload's
  \<^verbatim>\<open>id\<close> to \<^verbatim>\<open>"g1"\<close>, its \<^verbatim>\<open>ownerId\<close> to \<^verbatim>\<open>7\<close> and its \<^verbatim>\<open>contents\<close> to
  \<^verbatim>\<open>"hi"\<close>, and calls terminate with no error.
\<close>

theorem load_gist_scenario:
  assumes "truthy (id' d)"
    and "middleware_trigger h ''ajax'' (load_request d) = Some (err, xhr)"
    and "get_prop h xhr ''responseText'' = Inr (Str gist_body)"
    and "JSON_parse h gist_body = Inr gist_content"
  shows "loadPlugin h d =
     \<lparr>final = d\<lparr>id' := Str ''g1'', ownerId := Num 7, contents := Str ''hi''\<rparr>,
      triggered = [(''ajax'', load_request d)], signal = Done []\<rparr>"
  using assms
  by (simp add: loadPlugin_def load_completion_def load_malformed_def load_assign_def
      and_also_def gist_content_def)

theorem load_gist_scenario_witness:
  "loadPlugin (browser (Bool True) (network [(''ajax'', Null, response 200 gist_body)]))
     (notebook (Str ''g1'') (Bool False))
   = \<lparr>final = \<lparr>id' = Str ''g1'', ownerId = Num 7, contents = Str ''hi'',
               isAuthenticated = Bool False\<rparr>,
      triggered = [(''ajax'', Obj [(''url'', Str ''https://api.github.com/gists/g1''),
                                  (''method'', Str ''GET'')])],
      signal = Done []\<rparr>"
proof -
  let ?h = "browser (Bool True) (network [(''ajax'', Null, response 200 gist_body)])"
  let ?d = "notebook (Str ''g1'') (Bool False)"
  have 1: "truthy (id' ?d)" by (simp add: notebook_def)
  have 2: "middleware_trigger ?h ''ajax'' (load_request ?d) = Some (Null, response 200 gist_body)"
    by (simp add: browser_def network_def)
  have 3: "get_prop ?h (response 200 gist_body) ''responseText'' = Inr (Str gist_body)"
    by (simp add: response_def)
  have 4: "JSON_parse ?h gist_body = Inr gist_content"
    by (simp add: browser_def read_gist_body)
  show ?thesis
    using load_gist_scenario [OF 1 2 3 4] by (simp add: notebook_def load_request_def)
qed

text \<open>
  C3, as the code has it. With an identifier in the payload and a network read that
  completes with a response text, the load handler calls continue with an error, and
  so passes control to the next handler of the channel, when the text does not parse
  (the error is the exception of \<^verbatim>\<open>JSON.parse\<close>) and when the parsed object lacks
  \<^verbatim>\<open>files\<close> or \<^verbatim>\<open>files['notebook.md']\<close> (the error is
  \<^verbatim>\<open>Unexpected JSON response\<close>). The payload is left as it was.
\<close>

theorem load_malformed_continues:
  assumes "truthy (id' d)"
    and "middleware_trigger h ''ajax'' (load_request d) = Some (err, xhr)"
    and "get_prop h xhr ''responseText'' = Inr text"
  shows
    "(JSON_parse h (ToString text) = Inl e \<longrightarrow>
        loadPlugin h d =
          \<lparr>final = d, triggered = [(''ajax'', load_request d)], signal = Next [e]\<rparr>) \<and>
     (JSON_parse h (ToString text) = Inr (Obj kvs) \<and> map_of kvs ''files'' = None \<longrightarrow>
        loadPlugin h d =
          \<lparr>final = d, triggered = [(''ajax'', load_request d)],
            signal = Next [ErrorObj ''Error'' ''Unexpected JSON response'']\<rparr>) \<and>
     (JSON_parse h (ToString text) = Inr (Obj kvs) \<and> map_of kvs ''files'' = Some (Obj fs)
        \<and> map_of fs ''notebook.md'' = None \<longrightarrow>
        loadPlugin h d =
          \<lparr>final = d, triggered = [(''ajax'', load_request d)],
            signal = Next [ErrorObj ''Error'' ''Unexpected JSON response'']\<rparr>)"
  using assms
  by (simp add: loadPlugin_def load_completion_def load_malformed_eq)

theorem load_malformed_continues_witness:
  \<open>loadPlugin (browser (Bool True) (network [(''ajax'', Null, response 200 ''not json'')]))
      (notebook (Str ''g1'') (Bool True))
    = \<lparr>final = notebook (Str ''g1'') (Bool True),
       triggered = [(''ajax'', load_request (notebook (Str ''g1'') (Bool True)))],
       signal = Next [SyntaxError]\<rparr> \<and>
   loadPlugin (browser (Bool True) (network [(''ajax'', Null, response 200 ''{"id":"g1"}'')]))
      (notebook (Str ''g1'') (Bool True))
    = \<lparr>final = notebook (Str ''g1'') (Bool True),
       triggered = [(''ajax'', load_request (notebook (Str ''g1'') (Bool True)))],
       signal = Next [ErrorObj ''Error'' ''Unexpected JSON response'']\<rparr> \<and>
   loadPlugin (browser (Bool True)
        (network [(''ajax'', Null, response 200 ''{"id":"g1","files":{"readme.md":{"content":"x"}}}'')]))
      (notebook (Str ''g1'') (Bool True))
    = \<lparr>final = notebook (Str ''g1'') (Bool True),
       triggered = [(''ajax'', load_request (notebook (Str ''g1'') (Bool True)))],
       signal = Next [ErrorObj ''Error'' ''Unexpected JSON response'']\<rparr>\<close>
proof -
  let ?d = "notebook (Str ''g1'') (Bool True)"
  have d: "truthy (id' ?d)" by (simp add: notebook_def)
  have t: "middleware_trigger (browser (Bool True) (network [(''ajax'', Null, response 200 body)]))
             ''ajax'' (load_request ?d) = Some (Null, response 200 body)" for body
    by (simp add: browser_def network_def)
  have r: "get_prop (browser (Bool True) (network [(''ajax'', Null, response 200 body)]))
             (response 200 body) ''responseText'' = Inr (Str body)" for body
    by (simp add: response_def)
  show ?thesis
    using load_malformed_continues [OF d t r, where e = SyntaxError]
      load_malformed_continues [OF d t r, where kvs = "[(''id'', Str ''g1'')]"]
      load_malformed_continues [OF d t r,
        where kvs = "[(''id'', Str ''g1''),
                      (''files'', Obj [(''readme.md'', Obj [(''content'', Str ''x'')])])]"
          and fs = "[(''readme.md'', Obj [(''content'', Str ''x'')])]"]
    by (simp add: browser_def read_not_json read_no_files read_no_notebook)
qed

text \<open>
  C3 as stated fails: on a response that is not JSON, and on one without
  \<^verbatim>\<open>files\<close>, the handler calls continue, not terminate.
\<close>

theorem load_malformed_counterexample:
  \<open>signal (loadPlugin (browser (Bool True) (network [(''ajax'', Null, response 200 ''not json'')]))
             (notebook (Str ''g1'') (Bool True)))
     = Next [ErrorObj ''SyntaxError'' ''Unexpected token''] \<and>
   signal (loadPlugin (browser (Bool True) (network [(''ajax'', Null, response 200 ''{"id":"g1"}'')]))
             (notebook (Str ''g1'') (Bool True)))
     = Next [ErrorObj ''Error'' ''Unexpected JSON response'']\<close>
  by (simp add: loadPlugin_def load_completion_def load_malformed_eq browser_def network_def
      notebook_def response_def read_not_json read_no_files SyntaxError_def)

text \<open>
  C10, as the code has it. The outcome of the load handler does not depend on the
  \<^verbatim>\<open>err\<close> argument of the completion of the nested \<^verbatim>\<open>ajax\<close> trigger: two
  completions with the same \<^verbatim>\<open>xhr\<close> give the same outcome. When the completion
  supplies no \<^verbatim>\<open>xhr\<close>, the read of \<^verbatim>\<open>xhr.responseText\<close> throws inside the
  \<^verbatim>\<open>try\<close> block and the handler calls continue with that exception; the error of
  the completion is dropped.
\<close>

theorem load_ignores_error_argument:
  assumes "truthy (id' d)"
  shows
    "loadPlugin (h\<lparr>middleware_trigger := \<lambda>channel request. Some (err, xhr)\<rparr>) d
       = loadPlugin (h\<lparr>middleware_trigger := \<lambda>channel request. Some (err', xhr)\<rparr>) d \<and>
     loadPlugin (h\<lparr>middleware_trigger := \<lambda>channel request. Some (err, Undefined)\<rparr>) d
       = \<lparr>final = d, triggered = [(''ajax'', load_request d)],
          signal = Next [TypeError_of h Undefined ''responseText'']\<rparr>"
  using assms
  by (simp add: loadPlugin_def load_completion_net [where err' = Null])
    (simp add: load_completion_def)

theorem load_ignores_error_argument_witness:
  "loadPlugin
     ((browser (Bool True) (network []))
        \<lparr>middleware_trigger := \<lambda>channel request. Some (ErrorObj ''Error'' ''Network down'', Undefined)\<rparr>)
     (notebook (Str ''g1'') (Bool True))
   = \<lparr>final = notebook (Str ''g1'') (Bool True),
      triggered = [(''ajax'', load_request (notebook (Str ''g1'') (Bool True)))],
      signal = Next [ErrorObj ''TypeError'' ''Cannot read property responseText of undefined'']\<rparr>"
proof -
  have d: "truthy (id' (notebook (Str ''g1'') (Bool True)))" by (simp add: notebook_def)
  show ?thesis
    using load_ignores_error_argument
      [OF d, where h = "browser (Bool True) (network [])"
        and err = "ErrorObj ''Error'' ''Network down''"]
    by (simp add: browser_def)
qed

text \<open>
  C10 as stated fails in its last part: a completion with an error and no
  \<^verbatim>\<open>xhr\<close> makes the handler call continue.
\<close>

theorem load_missing_xhr_counterexample:
  "signal (loadPlugin
      (browser (Bool True) (network [(''ajax'', ErrorObj ''Error'' ''Network down'', Undefined)]))
      (notebook (Str ''g1'') (Bool True)))
   = Next [ErrorObj ''TypeError'' ''Cannot read property responseText of undefined'']"
  by (simp add: loadPlugin_def load_completion_def browser_def network_def notebook_def)

section \<open>The save handler\<close>

text \<open>Every path of the save handler that ends in a call ends in \<^verbatim>\<open>next\<close>.\<close>

lemma save_update_eq:
  "get_prop h xhr ''responseText'' = Inr t \<Longrightarrow> JSON_parse h (ToString t) = Inr content \<Longrightarrow>
   content \<noteq> Undefined \<Longrightarrow> content \<noteq> Null \<Longrightarrow>
   save_update h d xhr =
     (d\<lparr>id' := field content ''id'',
        ownerId := (if truthy (field content ''user'') then field (field content ''user'') ''id''
                    else field content ''user'')\<rparr>,
      Next [])"
  by (simp add: save_update_def and_also_def get_prop_defined get_prop_truthy)

lemma save_update_continues: "save_update h d xhr = (d', s) \<Longrightarrow> s \<noteq> Done args"
  by (auto simp: save_update_def and_also_def get_prop_truthy Let_def split: sum.splits)

lemma save_never_terminates: "signal (savePlugin h d) \<noteq> Done args"
  by (auto simp: savePlugin_def save_completion_def
      split: option.splits sum.splits prod.splits if_splits dest: save_update_continues)

text \<open>
  C5. For every payload whose \<^verbatim>\<open>isAuthenticated()\<close> returns \<^verbatim>\<open>false\<close>, the save
  handler calls continue with no argument, triggers no channel and leaves the payload
  as it was.
\<close>

theorem save_declines_unauthenticated:
  "isAuthenticated d = Bool False \<Longrightarrow>
   savePlugin h d = \<lparr>final = d, triggered = [], signal = Next []\<rparr>"
  by (simp add: savePlugin_def)

theorem save_declines_unauthenticated_witness:
  "savePlugin (browser (Bool True) (network [(''ajax:oauth2'', Null, response 201 gist_body)]))
     (notebook Undefined (Bool False))
   = \<lparr>final = notebook Undefined (Bool False), triggered = [], signal = Next []\<rparr>"
proof -
  have a: "isAuthenticated (notebook Undefined (Bool False)) = Bool False"
    by (simp add: notebook_def)
  show ?thesis by (rule save_declines_unauthenticated [OF a])
qed

text \<open>
  C4, as the code has it. For every payload whose \<^verbatim>\<open>isAuthenticated()\<close> returns
  \<^verbatim>\<open>true\<close>, when \<^verbatim>\<open>navigator.onLine\<close> is \<^verbatim>\<open>false\<close> the save handler calls
  continue with the error \<^verbatim>\<open>No internet available\<close>, triggers no channel and leaves
  the payload as it was.
\<close>

theorem save_offline_continues_with_error:
  "isAuthenticated d = Bool True \<Longrightarrow> onLine h = Bool False \<Longrightarrow>
   savePlugin h d =
     \<lparr>final = d, triggered = [], signal = Next [ErrorObj ''Error'' ''No internet available'']\<rparr>"
  by (simp add: savePlugin_def)

theorem save_offline_continues_with_error_witness:
  "savePlugin (browser (Bool False) (network [])) (notebook (Str ''g1'') (Bool True))
   = \<lparr>final = notebook (Str ''g1'') (Bool True), triggered = [],
      signal = Next [ErrorObj ''Error'' ''No internet available'']\<rparr>"
proof -
  have a: "isAuthenticated (notebook (Str ''g1'') (Bool True)) = Bool True"
    by (simp add: notebook_def)
  have o: "onLine (browser (Bool False) (network [])) = Bool False"
    by (simp add: browser_def)
  show ?thesis by (rule save_offline_continues_with_error [OF a o])
qed

text \<open>
  C4 as stated fails: offline, the call of continue carries an error value.
\<close>

theorem save_offline_counterexample:
  "signal (savePlugin (browser (Bool False) (network [])) (notebook (Str ''g1'') (Bool True)))
     = Next [ErrorObj ''Error'' ''No internet available''] \<and>
   signal (savePlugin (browser (Bool False) (network [])) (notebook (Str ''g1'') (Bool True)))
     \<noteq> Next []"
  by (simp add: savePlugin_def browser_def notebook_def)

text \<open>
  C2, as the code has it. For every payload on which the save handler proceeds past
  its guards, once the network write completes the handler calls continue: with the
  transport error when there is one; with the error \<^verbatim>\<open>Request failed\<close> on a status
  other than 200 and 201; with the exception of \<^verbatim>\<open>JSON.parse\<close> when the status is
  200 or 201 and the response text does not parse; and with no argument, having first
  set the payload's \<^verbatim>\<open>id\<close> and \<^verbatim>\<open>ownerId\<close> from the response, when the status
  is 200 or 201 and the response text parses to a value other than \<^verbatim>\<open>null\<close>.
\<close>

theorem save_reports_through_continue:
  assumes "truthy (isAuthenticated d)"
    and "onLine h \<noteq> Bool False"
    and "middleware_trigger h ''ajax:oauth2'' (save_request h d) = Some (err, xhr)"
  shows
    "(truthy err \<longrightarrow>
        savePlugin h d =
          \<lparr>final = d, triggered = [(''ajax:oauth2'', save_request h d)], signal = Next [err]\<rparr>) \<and>
     (\<not> truthy err \<and> get_prop h xhr ''status'' = Inr status
        \<and> status \<noteq> Num 200 \<and> status \<noteq> Num 201 \<longrightarrow>
        savePlugin h d =
          \<lparr>final = d, triggered = [(''ajax:oauth2'', save_request h d)],
            signal = Next [ErrorObj ''Error'' ''Request failed'']\<rparr>) \<and>
     (\<not> truthy err \<and> get_prop h xhr ''status'' = Inr status
        \<and> (status = Num 200 \<or> status = Num 201)
        \<and> get_prop h xhr ''responseText'' = Inr t
        \<and> JSON_parse h (ToString t) = Inl e \<longrightarrow>
        savePlugin h d =
          \<lparr>final = d, triggered = [(''ajax:oauth2'', save_request h d)], signal = Next [e]\<rparr>) \<and>
     (\<not> truthy err \<and> get_prop h xhr ''status'' = Inr status
        \<and> (status = Num 200 \<or> status = Num 201)
        \<and> get_prop h xhr ''responseText'' = Inr t
        \<and> JSON_parse h (ToString t) = Inr content
        \<and> content \<noteq> Undefined \<and> content \<noteq> Null \<longrightarrow>
        savePlugin h d =
          \<lparr>final = d\<lparr>id' := field content ''id'',
                      ownerId := (if truthy (field content ''user'')
                                  then field (field content ''user'') ''id''
                                  else field content ''user'')\<rparr>,
            triggered = [(''ajax:oauth2'', save_request h d)], signal = Next []\<rparr>)"
proof -
  have run: "savePlugin h d =
      (case save_completion h d err xhr of
         (d', s) \<Rightarrow> \<lparr>final = d', triggered = [(''ajax:oauth2'', save_request h d)], signal = s\<rparr>)"
    using assms by (simp add: savePlugin_def)
  have a: "truthy err \<Longrightarrow> save_completion h d err xhr = (d, Next [err])"
    by (simp add: save_completion_def)
  have b: "\<not> truthy err \<Longrightarrow> get_prop h xhr ''status'' = Inr status \<Longrightarrow>
      status \<noteq> Num 200 \<Longrightarrow> status \<noteq> Num 201 \<Longrightarrow>
      save_completion h d err xhr = (d, Next [ErrorObj ''Error'' ''Request failed''])"
    by (simp add: save_completion_def)
  have c: "\<not> truthy err \<Longrightarrow> get_prop h xhr ''status'' = Inr status \<Longrightarrow>
      status = Num 200 \<or> status = Num 201 \<Longrightarrow>
      save_completion h d err xhr = save_update h d xhr"
    by (auto simp: save_completion_def)
  have c1: "get_prop h xhr ''responseText'' = Inr t \<Longrightarrow> JSON_parse h (ToString t) = Inl e \<Longrightarrow>
      save_update h d xhr = (d, Next [e])"
    by (simp add: save_update_def)
  show ?thesis
    using a b c c1 save_update_eq [of h xhr t content d] by (simp add: run)
qed

theorem save_reports_through_continue_witness:
  "signal (savePlugin
      (browser (Bool True) (network [(''ajax:oauth2'', ErrorObj ''Error'' ''Network down'', Undefined)]))
      (notebook Undefined (Bool True)))
     = Next [ErrorObj ''Error'' ''Network down''] \<and>
   signal (savePlugin
      (browser (Bool True) (network [(''ajax:oauth2'', Null, response 404 ''Not Found'')]))
      (notebook Undefined (Bool True)))
     = Next [ErrorObj ''Error'' ''Request failed''] \<and>
   signal (savePlugin
      (browser (Bool True) (network [(''ajax:oauth2'', Null, response 200 ''not json'')]))
      (notebook Undefined (Bool True)))
     = Next [SyntaxError] \<and>
   signal (savePlugin
      (browser (Bool True) (network [(''ajax:oauth2'', Null, response 201 gist_body)]))
      (notebook Undefined (Bool True)))
     = Next [] \<and>
   final (savePlugin
      (browser (Bool True) (network [(''ajax:oauth2'', Null, response 201 gist_body)]))
      (notebook Undefined (Bool True)))
     = (notebook Undefined (Bool True))\<lparr>id' := Str ''g1'', ownerId := Num 7\<rparr>"
proof -
  let ?d = "notebook Undefined (Bool True)"
  have d: "truthy (isAuthenticated ?d)" by (simp add: notebook_def)
  have o: "onLine (browser (Bool True) net) \<noteq> Bool False" for net
    by (simp add: browser_def)
  have t: "middleware_trigger (browser (Bool True) (network [(''ajax:oauth2'', err, xhr)]))
             ''ajax:oauth2''
             (save_request (browser (Bool True) (network [(''ajax:oauth2'', err, xhr)])) ?d)
           = Some (err, xhr)" for err xhr
    by (simp add: browser_def network_def)
  have p: "JSON_parse (browser (Bool True) net) = read_json" for net
    by (simp add: browser_def)
  have 1: "signal (savePlugin
      (browser (Bool True) (network [(''ajax:oauth2'', ErrorObj ''Error'' ''Network down'', Undefined)]))
      ?d) = Next [ErrorObj ''Error'' ''Network down'']"
    using save_reports_through_continue
      [OF d o t [of "ErrorObj ''Error'' ''Network down''" Undefined]]
    by simp
  have 2: "signal (savePlugin
      (browser (Bool True) (network [(''ajax:oauth2'', Null, response 404 ''Not Found'')])) ?d)
     = Next [ErrorObj ''Error'' ''Request failed'']"
    using save_reports_through_continue
      [OF d o t [of Null "response 404 ''Not Found''"], where status = "Num 404"]
    by (simp add: response_def)
  have 3: "signal (savePlugin
      (browser (Bool True) (network [(''ajax:oauth2'', Null, response 200 ''not json'')])) ?d)
     = Next [SyntaxError]"
    using save_reports_through_continue
      [OF d o t [of Null "response 200 ''not json''"],
        where status = "Num 200" and t = "Str ''not json''" and e = SyntaxError]
    by (simp add: response_def p read_not_json)
  have 4: "savePlugin
      (browser (Bool True) (network [(''ajax:oauth2'', Null, response 201 gist_body)])) ?d
     = \<lparr>final = ?d\<lparr>id' := Str ''g1'', ownerId := Num 7\<rparr>,
        triggered = [(''ajax:oauth2'',
          save_request (browser (Bool True) (network [(''ajax:oauth2'', Null, response 201 gist_body)])) ?d)],
        signal = Next []\<rparr>"
    using save_reports_through_continue
      [OF d o t [of Null "response 201 gist_body"],
        where status = "Num 201" and t = "Str gist_body" and content = gist_content]
    by (simp add: response_def p read_gist_body) (simp add: gist_content_def)
  show ?thesis using 1 2 3 4 by simp
qed

text \<open>
  C2 as stated fails: after a transport error, after a status 404 and after a
  successful creation alike, the handler calls continue, not terminate.
\<close>

theorem save_reports_through_continue_counterexample:
  "signal (savePlugin
      (browser (Bool True) (network [(''ajax:oauth2'', ErrorObj ''Error'' ''Network down'', Undefined)]))
      (notebook (Str ''g1'') (Bool True)))
     = Next [ErrorObj ''Error'' ''Network down''] \<and>
   signal (savePlugin
      (browser (Bool True) (network [(''ajax:oauth2'', Null, response 404 ''Not Found'')]))
      (notebook (Str ''g1'') (Bool True)))
     = Next [ErrorObj ''Error'' ''Request failed''] \<and>
   signal (savePlugin
      (browser (Bool True) (network [(''ajax:oauth2'', Null, response 201 gist_body)]))
      (notebook (Str ''g1'') (Bool True)))
     = Next []"
  by (simp add: savePlugin_def save_completion_def save_update_def and_also_def browser_def
      network_def notebook_def response_def read_gist_body gist_content_def)

text \<open>
  C7. For every save attempt that reaches the network write (the payload is
  authenticated and the browser is not known to be offline), the one request goes to the
  channel \<^verbatim>\<open>ajax:oauth2\<close>; its method is \<^verbatim>\<open>PATCH\<close> and its URL ends in the
  payload's id when the payload has one, and its method is \<^verbatim>\<open>POST\<close> on the bare
  URL when it has none; its body is \<^verbatim>\<open>JSON.stringify\<close> of
  \<^verbatim>\<open>{ files: { 'notebook.md': { content: data.contents } } }\<close>. When the write
  completes without a transport error, every status other than 200 and 201 is reported
  as the failure \<^verbatim>\<open>Request failed\<close>; a report of success (continue with no error)
  implies that the status is 200 or 201; and 200 and 201 are accepted: with either, the
  handler goes on to the response and reports success when its text parses to a value
  other than \<^verbatim>\<open>null\<close>.
\<close>

theorem save_request_and_status:
  assumes "truthy (isAuthenticated d)" and "onLine h \<noteq> Bool False"
  shows
    "triggered (savePlugin h d) =
       [(''ajax:oauth2'',
         Obj [(''url'', Str (if truthy (id' d)
                             then ''https://api.github.com/gists/'' @ ToString (id' d)
                             else ''https://api.github.com/gists'')),
              (''method'', Str (if truthy (id' d) then ''PATCH'' else ''POST'')),
              (''data'', Str (JSON_stringify h
                 (Obj [(''files'', Obj [(''notebook.md'', Obj [(''content'', contents d)])])]))),
              (''oauth2'', Obj [(''authorizationUrl'', Str AUTH_URL)])])] \<and>
     (middleware_trigger h ''ajax:oauth2'' (save_request h d) = Some (err, xhr)
        \<and> \<not> truthy err \<and> get_prop h xhr ''status'' = Inr status \<longrightarrow>
        (status \<noteq> Num 200 \<and> status \<noteq> Num 201 \<longrightarrow>
           signal (savePlugin h d) = Next [ErrorObj ''Error'' ''Request failed'']) \<and>
        (signal (savePlugin h d) = Next [] \<longrightarrow> status = Num 200 \<or> status = Num 201) \<and>
        ((status = Num 200 \<or> status = Num 201)
           \<and> get_prop h xhr ''responseText'' = Inr t
           \<and> JSON_parse h (ToString t) = Inr content
           \<and> content \<noteq> Undefined \<and> content \<noteq> Null \<longrightarrow>
           signal (savePlugin h d) = Next []))"
proof -
  have shape: "triggered (savePlugin h d) = [(''ajax:oauth2'', save_request h d)]"
    using assms by (simp add: savePlugin_def split: option.splits prod.splits)
  have req: "save_request h d =
         Obj [(''url'', Str (if truthy (id' d)
                             then ''https://api.github.com/gists/'' @ ToString (id' d)
                             else ''https://api.github.com/gists'')),
              (''method'', Str (if truthy (id' d) then ''PATCH'' else ''POST'')),
              (''data'', Str (JSON_stringify h
                 (Obj [(''files'', Obj [(''notebook.md'', Obj [(''content'', contents d)])])]))),
              (''oauth2'', Obj [(''authorizationUrl'', Str AUTH_URL)])]"
    by (simp add: save_request_def)
  have run: "middleware_trigger h ''ajax:oauth2'' (save_request h d) = Some (err, xhr) \<Longrightarrow>
      signal (savePlugin h d) = snd (save_completion h d err xhr)"
    using assms by (simp add: savePlugin_def split: prod.splits)
  have bad: "\<not> truthy err \<Longrightarrow> get_prop h xhr ''status'' = Inr status \<Longrightarrow>
      status \<noteq> Num 200 \<Longrightarrow> status \<noteq> Num 201 \<Longrightarrow>
      snd (save_completion h d err xhr) = Next [ErrorObj ''Error'' ''Request failed'']"
    by (simp add: save_completion_def)
  have good: "\<not> truthy err \<Longrightarrow> get_prop h xhr ''status'' = Inr status \<Longrightarrow>
      status = Num 200 \<or> status = Num 201 \<Longrightarrow>
      get_prop h xhr ''responseText'' = Inr t \<Longrightarrow> JSON_parse h (ToString t) = Inr content \<Longrightarrow>
      content \<noteq> Undefined \<Longrightarrow> content \<noteq> Null \<Longrightarrow>
      snd (save_completion h d err xhr) = Next []"
    using save_update_eq [of h xhr t content d] by (auto simp: save_completion_def)
  have only: "\<not> truthy err \<Longrightarrow> get_prop h xhr ''status'' = Inr status \<Longrightarrow>
      snd (save_completion h d err xhr) = Next [] \<Longrightarrow> status = Num 200 \<or> status = Num 201"
    by (rule ccontr) (simp add: save_completion_def)
  show ?thesis
    unfolding shape req [symmetric]
    using run bad only good by simp
qed

theorem save_request_and_status_witness:
  \<open>triggered (savePlugin
      (browser (Bool True) (network [(''ajax:oauth2'', Null, response 404 ''Not Found'')]))
      (notebook (Str ''g1'') (Bool True)))
     = [(''ajax:oauth2'',
         Obj [(''url'', Str ''https://api.github.com/gists/g1''),
              (''method'', Str ''PATCH''),
              (''data'', Str ''{"files":{"notebook.md":{"content":"# Title"}}}''),
              (''oauth2'', Obj [(''authorizationUrl'', Str ''https://github.com/login/oauth/authorize'')])])] \<and>
   signal (savePlugin
      (browser (Bool True) (network [(''ajax:oauth2'', Null, response 404 ''Not Found'')]))
      (notebook (Str ''g1'') (Bool True)))
     = Next [ErrorObj ''Error'' ''Request failed''] \<and>
   triggered (savePlugin
      (browser (Bool True) (network [(''ajax:oauth2'', Null, response 201 gist_body)]))
      (notebook Null (Bool True)))
     = [(''ajax:oauth2'',
         Obj [(''url'', Str ''https://api.github.com/gists''),
              (''method'', Str ''POST''),
              (''data'', Str ''{"files":{"notebook.md":{"content":"# Title"}}}''),
              (''oauth2'', Obj [(''authorizationUrl'', Str ''https://github.com/login/oauth/authorize'')])])] \<and>
   signal (savePlugin
      (browser (Bool True) (network [(''ajax:oauth2'', Null, response 201 gist_body)]))
      (notebook Null (Bool True)))
     = Next []\<close>
proof -
  have a: "truthy (isAuthenticated (notebook i (Bool True)))" for i
    by (simp add: notebook_def)
  have o: "onLine (browser (Bool True) net) \<noteq> Bool False" for net
    by (simp add: browser_def)
  have n: "middleware_trigger (browser (Bool True) (network [(''ajax:oauth2'', err, xhr)]))
             ''ajax:oauth2'' request = Some (err, xhr)" for err xhr request
    by (simp add: browser_def network_def)
  have p: "JSON_parse (browser (Bool True) net) = read_json" for net
    by (simp add: browser_def)
  have w: \<open>JSON_stringify (browser (Bool True) net)
             (Obj [(''files'', Obj [(''notebook.md'', Obj [(''content'', Str ''# Title'')])])])
           = ''{"files":{"notebook.md":{"content":"# Title"}}}''\<close> for net
    by (simp add: browser_def quoted_def escape_char_def)
  have 1: \<open>triggered (savePlugin
      (browser (Bool True) (network [(''ajax:oauth2'', Null, response 404 ''Not Found'')]))
      (notebook (Str ''g1'') (Bool True)))
     = [(''ajax:oauth2'',
         Obj [(''url'', Str ''https://api.github.com/gists/g1''),
              (''method'', Str ''PATCH''),
              (''data'', Str ''{"files":{"notebook.md":{"content":"# Title"}}}''),
              (''oauth2'', Obj [(''authorizationUrl'', Str ''https://github.com/login/oauth/authorize'')])])] \<and>
   signal (savePlugin
      (browser (Bool True) (network [(''ajax:oauth2'', Null, response 404 ''Not Found'')]))
      (notebook (Str ''g1'') (Bool True)))
     = Next [ErrorObj ''Error'' ''Request failed'']\<close>
    using save_request_and_status
        [OF a [of "Str ''g1''"] o [of "network [(''ajax:oauth2'', Null, response 404 ''Not Found'')]"],
        where err = Null and xhr = "response 404 ''Not Found''" and status = "Num 404"]
    by (simp add: n w AUTH_URL_def notebook_def response_def)
  have 2: \<open>triggered (savePlugin
      (browser (Bool True) (network [(''ajax:oauth2'', Null, response 201 gist_body)]))
      (notebook Null (Bool True)))
     = [(''ajax:oauth2'',
         Obj [(''url'', Str ''https://api.github.com/gists''),
              (''method'', Str ''POST''),
              (''data'', Str ''{"files":{"notebook.md":{"content":"# Title"}}}''),
              (''oauth2'', Obj [(''authorizationUrl'', Str ''https://github.com/login/oauth/authorize'')])])] \<and>
   signal (savePlugin
      (browser (Bool True) (network [(''ajax:oauth2'', Null, response 201 gist_body)]))
      (notebook Null (Bool True)))
     = Next []\<close>
    using save_request_and_status
        [OF a [of Null] o [of "network [(''ajax:oauth2'', Null, response 201 gist_body)]"],
        where err = Null and xhr = "response 201 gist_body"
          and status = "Num 201" and t = "Str gist_body" and content = gist_content]
    by (simp add: n w p read_gist_body AUTH_URL_def notebook_def response_def gist_content_def)
  show ?thesis using 1 2 by simp
qed

section \<open>The authentication handler\<close>

text \<open>The three ways the callback of the validation trigger ends in \<^verbatim>\<open>done\<close>.\<close>

lemma validate_completion_failed:
  "truthy verr \<or> \<not> truthy vauth \<Longrightarrow> validate_completion h verr vauth = Done [verr]"
  by (simp add: validate_completion_def)

lemma validate_completion_unparsed:
  "\<not> truthy verr \<Longrightarrow> truthy vauth \<Longrightarrow>
   get_prop h (field vauth ''xhr'') ''responseText'' = Inr t \<Longrightarrow>
   JSON_parse h (ToString t) = Inl e \<Longrightarrow>
   validate_completion h verr vauth = Done [e]"
  by (simp add: validate_completion_def get_prop_truthy)

lemma validate_completion_identity:
  "\<not> truthy verr \<Longrightarrow> truthy vauth \<Longrightarrow>
   get_prop h (field vauth ''xhr'') ''responseText'' = Inr t \<Longrightarrow>
   JSON_parse h (ToString t) = Inr content \<Longrightarrow> content \<noteq> Undefined \<Longrightarrow> content \<noteq> Null \<Longrightarrow>
   validate_completion h verr vauth =
     Done [Null, Obj [(''userId'', field content ''id''),
                      (''userTitle'', Str (ToString (field content ''login'') @ '' @ Github''))]]"
  by (simp add: validate_completion_def identity_of_def get_prop_truthy get_prop_defined)

text \<open>
  C9, as the code has it. A trigger of \<^verbatim>\<open>persistence:authenticate\<close> makes the handler
  trigger \<^verbatim>\<open>authenticate:oauth2\<close> with the scope \<^verbatim>\<open>gist\<close> and the authorization,
  token and validation endpoints. If that trigger completes with an error, the handler
  calls continue with that error. Otherwise it triggers
  \<^verbatim>\<open>authenticate:oauth2:validate\<close> and, once that completes, calls terminate: with
  the validation's error argument when validation completes with an error or without
  an auth object; with the exception of \<^verbatim>\<open>JSON.parse\<close> when the validation
  response does not parse; and with no error and the identity
  \<^verbatim>\<open>{ userId: content.id, userTitle: content.login + ' @ Github' }\<close> when the
  response parses to a value \<open>content\<close> other than \<^verbatim>\<open>null\<close>. The payload is not
  touched.
\<close>

theorem authenticate_outcomes:
  assumes "middleware_trigger h ''authenticate:oauth2'' (oauth2_request h) = Some (err, auth)"
  shows
    "field (oauth2_request h) ''scopes'' = Arr [Str ''gist''] \<and>
     field (oauth2_request h) ''authorizationUrl'' = Str ''https://github.com/login/oauth/authorize'' \<and>
     field (oauth2_request h) ''accessTokenUrl'' = Str ''https://github.com/login/oauth/access_token'' \<and>
     field (oauth2_request h) ''validateUrl'' = Str ''https://api.github.com/user'' \<and>
     (truthy err \<longrightarrow>
        authenticatePlugin h d =
          \<lparr>final = d, triggered = [(''authenticate:oauth2'', oauth2_request h)],
            signal = Next [err]\<rparr>) \<and>
     (\<not> truthy err
        \<and> middleware_trigger h ''authenticate:oauth2:validate'' validate_request = Some (verr, vauth)
        \<longrightarrow>
        final (authenticatePlugin h d) = d \<and>
        triggered (authenticatePlugin h d) =
          [(''authenticate:oauth2'', oauth2_request h),
           (''authenticate:oauth2:validate'', validate_request)] \<and>
        (truthy verr \<or> \<not> truthy vauth \<longrightarrow> signal (authenticatePlugin h d) = Done [verr]) \<and>
        (\<not> truthy verr \<and> truthy vauth
           \<and> get_prop h (field vauth ''xhr'') ''responseText'' = Inr t \<longrightarrow>
           (JSON_parse h (ToString t) = Inl e \<longrightarrow> signal (authenticatePlugin h d) = Done [e]) \<and>
           (JSON_parse h (ToString t) = Inr content \<and> content \<noteq> Undefined \<and> content \<noteq> Null \<longrightarrow>
              signal (authenticatePlugin h d) =
                Done [Null,
                      Obj [(''userId'', field content ''id''),
                           (''userTitle'',
                            Str (ToString (field content ''login'') @ '' @ Github''))]])))"
proof -
  have req: "field (oauth2_request h) ''scopes'' = Arr [Str ''gist''] \<and>
     field (oauth2_request h) ''authorizationUrl'' = Str ''https://github.com/login/oauth/authorize'' \<and>
     field (oauth2_request h) ''accessTokenUrl'' = Str ''https://github.com/login/oauth/access_token'' \<and>
     field (oauth2_request h) ''validateUrl'' = Str ''https://api.github.com/user''"
    by (simp add: oauth2_request_def AUTH_URL_def TOKEN_URL_def VALID_URL_def)
  have failed: "truthy err \<Longrightarrow>
      authenticatePlugin h d =
        \<lparr>final = d, triggered = [(''authenticate:oauth2'', oauth2_request h)], signal = Next [err]\<rparr>"
    using assms by (simp add: authenticatePlugin_def)
  have validated: "\<not> truthy err \<Longrightarrow>
      middleware_trigger h ''authenticate:oauth2:validate'' validate_request = Some (verr, vauth) \<Longrightarrow>
      authenticatePlugin h d =
        \<lparr>final = d,
          triggered = [(''authenticate:oauth2'', oauth2_request h),
                       (''authenticate:oauth2:validate'', validate_request)],
          signal = validate_completion h verr vauth\<rparr>"
    using assms by (simp add: authenticatePlugin_def authenticatedUserId_def)
  show ?thesis
    using req failed validated validate_completion_failed [of verr vauth h]
      validate_completion_unparsed [of verr vauth h t e]
      validate_completion_identity [of verr vauth h t content]
    by simp
qed

theorem authenticate_outcomes_witness:
  "signal (authenticatePlugin
      (browser (Bool True)
         (network [(''authenticate:oauth2'', ErrorObj ''Error'' ''access_denied'', Undefined)]))
      (notebook Undefined (Bool False)))
     = Next [ErrorObj ''Error'' ''access_denied''] \<and>
   signal (authenticatePlugin
      (browser (Bool True)
         (network [(''authenticate:oauth2'', Null, Obj [(''accessToken'', Str ''abc'')]),
                   (''authenticate:oauth2:validate'', Null, Obj [(''xhr'', response 200 user_body)])]))
      (notebook Undefined (Bool False)))
     = Done [Null, Obj [(''userId'', Num 583231), (''userTitle'', Str ''octocat @ Github'')]] \<and>
   signal (authenticatePlugin
      (browser (Bool True)
         (network [(''authenticate:oauth2'', Null, Obj [(''accessToken'', Str ''abc'')]),
                   (''authenticate:oauth2:validate'', ErrorObj ''Error'' ''Bad credentials'', Undefined)]))
      (notebook Undefined (Bool False)))
     = Done [ErrorObj ''Error'' ''Bad credentials'']"
proof -
  let ?denied = "network [(''authenticate:oauth2'', ErrorObj ''Error'' ''access_denied'', Undefined)]"
  let ?granted = "network [(''authenticate:oauth2'', Null, Obj [(''accessToken'', Str ''abc'')]),
                   (''authenticate:oauth2:validate'', Null, Obj [(''xhr'', response 200 user_body)])]"
  let ?revoked = "network [(''authenticate:oauth2'', Null, Obj [(''accessToken'', Str ''abc'')]),
                   (''authenticate:oauth2:validate'', ErrorObj ''Error'' ''Bad credentials'', Undefined)]"
  have 1: "middleware_trigger (browser (Bool True) ?denied) ''authenticate:oauth2''
             (oauth2_request (browser (Bool True) ?denied))
           = Some (ErrorObj ''Error'' ''access_denied'', Undefined)"
    by (simp add: browser_def network_def)
  have 2: "middleware_trigger (browser (Bool True) ?granted) ''authenticate:oauth2''
             (oauth2_request (browser (Bool True) ?granted))
           = Some (Null, Obj [(''accessToken'', Str ''abc'')])"
    by (simp add: browser_def network_def)
  have 3: "middleware_trigger (browser (Bool True) ?revoked) ''authenticate:oauth2''
             (oauth2_request (browser (Bool True) ?revoked))
           = Some (Null, Obj [(''accessToken'', Str ''abc'')])"
    by (simp add: browser_def network_def)
  have v2: "middleware_trigger (browser (Bool True) ?granted) ''authenticate:oauth2:validate''
              validate_request = Some (Null, Obj [(''xhr'', response 200 user_body)])"
    by (simp add: browser_def network_def)
  have v3: "middleware_trigger (browser (Bool True) ?revoked) ''authenticate:oauth2:validate''
              validate_request = Some (ErrorObj ''Error'' ''Bad credentials'', Undefined)"
    by (simp add: browser_def network_def)
  have p: "JSON_parse (browser (Bool True) net) = read_json" for net
    by (simp add: browser_def)
  have r: "get_prop h (response 200 user_body) ''responseText'' = Inr (Str user_body)" for h
    by (simp add: response_def)
  have a: "signal (authenticatePlugin (browser (Bool True) ?denied) (notebook Undefined (Bool False)))
             = Next [ErrorObj ''Error'' ''access_denied'']"
    using authenticate_outcomes [OF 1, where d = "notebook Undefined (Bool False)"] by simp
  have b: "signal (authenticatePlugin (browser (Bool True) ?granted) (notebook Undefined (Bool False)))
             = Done [Null, Obj [(''userId'', Num 583231), (''userTitle'', Str ''octocat @ Github'')]]"
    using authenticate_outcomes [OF 2,
        where d = "notebook Undefined (Bool False)" and verr = Null and vauth = "Obj [(''xhr'', response 200 user_body)]"
          and t = "Str user_body"
          and content = "Obj [(''login'', Str ''octocat''), (''id'', Num 583231)]"]
    by (simp add: v2 p r read_user_body)
  have c: "signal (authenticatePlugin (browser (Bool True) ?revoked) (notebook Undefined (Bool False)))
             = Done [ErrorObj ''Error'' ''Bad credentials'']"
    using authenticate_outcomes [OF 3,
        where d = "notebook Undefined (Bool False)"
          and verr = "ErrorObj ''Error'' ''Bad credentials''" and vauth = Undefined]
    by (simp add: v3)
  show ?thesis using a b c by simp
qed

text \<open>
  C9 as stated fails: the first trigger succeeds, the validation completes with an
  error, and the handler terminates with that error and no identity.
\<close>

theorem authenticate_validation_counterexample:
  "signal (authenticatePlugin
      (browser (Bool True)
         (network [(''authenticate:oauth2'', Null, Obj [(''accessToken'', Str ''abc'')]),
                   (''authenticate:oauth2:validate'', ErrorObj ''Error'' ''Bad credentials'', Undefined)]))
      (notebook Undefined (Bool False)))
   = Done [ErrorObj ''Error'' ''Bad credentials'']"
  by (simp add: authenticatePlugin_def authenticatedUserId_def validate_completion_def
      browser_def network_def)

section \<open>The dispatcher completes once\<close>

text \<open>
  While every handler reached so far has made exactly one call, one call is pending
  and the walk adds exactly one completion: by induction on the number of handlers
  after the cursor.
\<close>

lemma walk_single:
  "cursor s < length hs \<Longrightarrow> \<forall>h \<in> set hs. \<forall>p. length (snd (h p)) = 1 \<Longrightarrow>
   length (completions (walk hs s [c])) = Suc (length (completions s))"
proof (induction "length hs - cursor s" arbitrary: s c rule: less_induct)
  case less
  show ?case
  proof (cases c)
    case (Terminate e r)
    then show ?thesis by simp
  next
    case (Continue e)
    show ?thesis
    proof (cases "length hs \<le> Suc (cursor s)")
      case True
      then show ?thesis using Continue by simp
    next
      case False
      obtain p cs' where hp: "(hs ! Suc (cursor s)) (payload s) = (p, cs')"
        by (cases "(hs ! Suc (cursor s)) (payload s)")
      have "hs ! Suc (cursor s) \<in> set hs" using False by simp
      with less.prems(2) have "length (snd ((hs ! Suc (cursor s)) (payload s))) = 1" by blast
      with hp have "length cs' = 1" by simp
      then obtain c' where cs': "cs' = [c']" by (cases cs') auto
      let ?s = "s\<lparr>lastError := e, cursor := Suc (cursor s), payload := p\<rparr>"
      have "length (completions (walk hs ?s [c'])) = Suc (length (completions ?s))"
        using less.hyps[of ?s c'] less.prems False by simp
      then show ?thesis using Continue False hp cs' by (simp add: Let_def)
    qed
  qed
qed

text \<open>
  The hypothesis is needed. A handler that calls neither operation leaves the trigger
  without a completion, as section 4.2 of the specification says; and in this model a
  handler that calls both gets two.
\<close>

lemma stalled_trigger_never_completes:
  "trigger (register (\<lambda>channel. []) ''stall'' stalling) ''stall'' 21 = []"
  by (simp add: trigger_def register_def stalling_def)

lemma doubly_settled_trigger_completes_twice:
  "trigger (register (\<lambda>channel. []) ''twice'' (\<lambda>p. (p, [Terminate None (Some p), Continue None])))
     ''twice'' (21 :: int)
   = [(None :: string option, Some 21), (None, Some 21)]"
  by (simp add: trigger_def register_def)

text \<open>
  C1. Whatever number of handlers is registered on the channel, and whichever of
  continue and terminate each of them calls, as long as each handler calls exactly one
  of the two exactly once, a trigger invokes its completion function exactly once: the
  list of completions has one entry, an error (failure) or none (success) with a
  result. With no handler registered the one completion comes at once.
\<close>

theorem trigger_completes_exactly_once:
  assumes "\<forall>h \<in> set (registry channel). \<forall>p. length (snd (h p)) = 1"
  shows "\<exists>err result. trigger registry channel p = [(err, result)]"
proof (cases "registry channel")
  case Nil
  then show ?thesis by (simp add: trigger_def)
next
  case (Cons h hs)
  obtain p' cs where hp: "h p = (p', cs)" by (cases "h p")
  have "length (snd (h p)) = 1" using assms Cons by simp
  with hp obtain c where cs: "cs = [c]" by (cases cs) auto
  let ?s = "\<lparr>cursor = 0, lastError = None, payload = p', completions = []\<rparr>"
  have "length (completions (walk (h # hs) ?s [c])) = Suc 0"
    using walk_single[of ?s "h # hs" c] assms Cons by simp
  then have "length (trigger registry channel p) = Suc 0"
    using Cons hp cs by (simp add: trigger_def)
  then obtain x where "trigger registry channel p = [x]"
    by (cases "trigger registry channel p") auto
  then show ?thesis by (cases x) auto
qed

theorem trigger_completes_exactly_once_witness:
  "\<exists>err result. trigger fallback_registry ''fallback'' 21 = [(err, result)]"
proof -
  have h: "\<forall>h \<in> set (fallback_registry ''fallback''). \<forall>p. length (snd (h p)) = 1"
    by (simp add: fallback_registry_def register_def failing_def doubling_def)
  show ?thesis
    using trigger_completes_exactly_once [of fallback_registry "''fallback''" 21] h by simp
qed

text \<open>
  The scenarios of section 8 of the specification: a channel without handlers completes
  with success and the payload; a single handler that terminates with twice the payload
  gives \<open>(null, 42)\<close> for \<open>21\<close>; a handler that fails and passes on, followed by one that
  terminates, gives the second one's result; and a decline after a failure clears the
  error.
\<close>

lemma trigger_without_handlers:
  "registry channel = [] \<Longrightarrow> trigger registry channel p = [(None, Some p)]"
  by (simp add: trigger_def)

lemma echo_doubles:
  "trigger (register (\<lambda>channel. []) ''echo'' doubling) ''echo'' 21 = [(None, Some 42)]"
  by (simp add: trigger_def register_def doubling_def)

lemma fallback_recovers:
  "trigger fallback_registry ''fallback'' 21 = [(None, Some 42)]"
  by (simp add: trigger_def fallback_registry_def register_def failing_def doubling_def)

lemma later_decline_clears_error:
  "trigger (register (register (\<lambda>channel. []) ''load'' failing) ''load'' declining) ''load'' 21
   = [(None, Some 21)]"
  by (simp add: trigger_def register_def failing_def declining_def)

end
